theory Spec2Isabelle
  imports Main "HOL-Library.AList"
begin

section \<open>JavaScript values and objects\<close>

text \<open>
  The values a customization mapping can hold at run time. The declared type is
  \<^verbatim>\<open>string | number\<close>; \<^verbatim>\<open>undefined\<close> and \<^verbatim>\<open>null\<close> are what an untyped caller can
  still pass. Numbers are restricted to the integers a double holds exactly and renders
  in plain decimal digits (every integer up to \<open>2^53\<close> in magnitude): for these the
  decimal rendering below is what \<^verbatim>\<open>toString()\<close> returns. Larger numbers, fractions,
  \<^verbatim>\<open>NaN\<close> and \<^verbatim>\<open>Infinity\<close> are outside the model.
\<close>

datatype jsval = JUndefined | JNull | JString string | JNumber int

text \<open>
  A plain object: its own enumerable string-keyed properties, in the order
  \<^verbatim>\<open>Object.keys\<close> lists them.
\<close>

type_synonym js_object = "(string \<times> jsval) list"

definition Object_keys :: "js_object \<Rightarrow> string list" where
  "Object_keys obj = map fst obj"

text \<open>Property read \<^verbatim>\<open>obj[key]\<close>: a missing property reads as \<^verbatim>\<open>undefined\<close>.\<close>

definition get_property :: "js_object \<Rightarrow> string \<Rightarrow> jsval" where
  "get_property obj k = (case map_of obj k of None \<Rightarrow> JUndefined | Some v \<Rightarrow> v)"

fun nat_digits :: "nat \<Rightarrow> string" where
  "nat_digits n =
     (if n < 10 then [''0123456789'' ! n]
      else nat_digits (n div 10) @ [''0123456789'' ! (n mod 10)])"

declare nat_digits.simps [simp del]

definition number_toString :: "int \<Rightarrow> string" where
  "number_toString i =
     (if i < 0 then CHR ''-'' # nat_digits (nat (- i)) else nat_digits (nat i))"

text \<open>
  \<^verbatim>\<open>v?.toString()\<close>: \<^verbatim>\<open>undefined\<close> (here \<open>None\<close>) when \<open>v\<close> is \<^verbatim>\<open>undefined\<close> or
  \<^verbatim>\<open>null\<close>, the string rendering otherwise.
\<close>

fun optional_toString :: "jsval \<Rightarrow> string option" where
  "optional_toString JUndefined = None"
| "optional_toString JNull = None"
| "optional_toString (JString s) = Some s"
| "optional_toString (JNumber n) = Some (number_toString n)"

text \<open>\<^verbatim>\<open>a || b\<close> on an optional string: \<^verbatim>\<open>undefined\<close> and the empty string are falsy.\<close>

fun or_else :: "string option \<Rightarrow> string \<Rightarrow> string" where
  "or_else None b = b"
| "or_else (Some a) b = (if a = [] then b else a)"

section \<open>URL objects\<close>

text \<open>
  A parsed URL: everything before the query (scheme, host, path), the list of
  query name-value pairs behind \<^verbatim>\<open>searchParams\<close>, and the fragment.
\<close>

record url =
  origin_and_pathname :: string
  searchParams :: "(string \<times> string) list"
  fragment :: string

text \<open>
  \<^verbatim>\<open>URLSearchParams.set(name, value)\<close>: the first pair named \<open>name\<close> takes the value
  and every other pair of that name is removed; with no such pair, one is appended.
\<close>

fun searchParams_set :: "string \<Rightarrow> string \<Rightarrow> (string \<times> string) list \<Rightarrow> (string \<times> string) list" where
  "searchParams_set name v [] = [(name, v)]"
| "searchParams_set name v (p # ps) =
     (if fst p = name then (name, v) # filter (\<lambda>q. fst q \<noteq> name) ps
      else p # searchParams_set name v ps)"

text \<open>\<^verbatim>\<open>URLSearchParams.get(name)\<close>: the value of the first pair of that name.\<close>

definition searchParams_get :: "string \<Rightarrow> (string \<times> string) list \<Rightarrow> string option" where
  "searchParams_get name ps = map_of ps name"

definition url_set :: "string \<Rightarrow> string \<Rightarrow> url \<Rightarrow> url" where
  "url_set name v u = u\<lparr>searchParams := searchParams_set name v (searchParams u)\<rparr>"

datatype js_error = TypeError

section \<open>The link resolver\<close>

text \<open>
  \<^verbatim>\<open>createEmbeddedWalletIframeLink({clientId, path, queryParams})\<close>.
  The platform's \<^verbatim>\<open>new URL(path, base)\<close> is the parameter \<open>new_URL\<close> (\<open>None\<close> when it
  throws), and the constant \<^verbatim>\<open>PAPER_APP_URL\<close> of the settings module is the parameter
  of that name. The loop runs over \<^verbatim>\<open>Object.keys(queryParams)\<close> and sets each key to
  \<^verbatim>\<open>queryParams[queryKey]?.toString() || ""\<close>.
\<close>

definition query_value :: "js_object \<Rightarrow> string \<Rightarrow> string" where
  "query_value queryParams queryKey =
     or_else (optional_toString (get_property queryParams queryKey)) []"

definition createEmbeddedWalletIframeLink ::
  "(string \<Rightarrow> string \<Rightarrow> url option) \<Rightarrow> string \<Rightarrow> string \<Rightarrow> string \<Rightarrow> js_object option
     \<Rightarrow> js_error + url" where
  "createEmbeddedWalletIframeLink new_URL PAPER_APP_URL clientId path queryParams =
     (case new_URL path PAPER_APP_URL of
        None \<Rightarrow> Inl TypeError
      | Some url0 \<Rightarrow>
          (let embeddedWalletUrl = url_set ''clientId'' clientId url0
           in case queryParams of
                None \<Rightarrow> Inr embeddedWalletUrl
              | Some qp \<Rightarrow>
                  Inr (fold (\<lambda>queryKey. url_set queryKey (query_value qp queryKey))
                         (Object_keys qp) embeddedWalletUrl)))"

text \<open>
  A stand-in for the platform parser, used to run the resolver on concrete inputs:
  it keeps base and path side by side and starts with no query pair.
\<close>

definition plain_URL :: "string \<Rightarrow> string \<Rightarrow> url option" where
  "plain_URL path base =
     Some \<lparr>origin_and_pathname = base @ path, searchParams = [], fragment = []\<rparr>"

section \<open>The two communicator classes\<close>

datatype container = document_body | element string

type_synonym StyleObject = "(string \<times> string) list"

text \<open>
  What a subclass hands to the constructor of its base class \<^verbatim>\<open>IframeCommunicator\<close>.
  The link is kept as the URL object whose \<^verbatim>\<open>.href\<close> the source passes on; a
  callback is a handle.
\<close>

record IframeCommunicator_args =
  iframeId :: string
  link :: url
  container :: container
  iframeStyles :: "StyleObject option"
  onIframeInitialize :: "nat option"

record EmbeddedWalletIframeCommunicator = IframeCommunicator_args +
  communicator_clientId :: string

definition EMBEDDED_WALLET_IFRAME_ID :: string where
  "EMBEDDED_WALLET_IFRAME_ID = ''paper-embedded-wallet-iframe''"

definition EMBEDDED_WALLET_MODAL_UI_IFRAME_ID :: string where
  "EMBEDDED_WALLET_MODAL_UI_IFRAME_ID = ''paper-embedded-wallet-modal-iframe''"

text \<open>
  The constructor of \<^verbatim>\<open>EmbeddedWalletIframeCommunicator\<close>; \<^verbatim>\<open>EMBEDDED_WALLET_PATH\<close>
  is a constant of the settings module and a parameter here.
\<close>

definition new_EmbeddedWalletIframeCommunicator ::
  "(string \<Rightarrow> string \<Rightarrow> url option) \<Rightarrow> string \<Rightarrow> string \<Rightarrow> string \<Rightarrow> js_object option
     \<Rightarrow> js_error + EmbeddedWalletIframeCommunicator" where
  "new_EmbeddedWalletIframeCommunicator new_URL PAPER_APP_URL EMBEDDED_WALLET_PATH
       clientId customizationOptions =
     (case createEmbeddedWalletIframeLink new_URL PAPER_APP_URL clientId
             EMBEDDED_WALLET_PATH customizationOptions of
        Inl e \<Rightarrow> Inl e
      | Inr href \<Rightarrow>
          Inr \<lparr>iframeId = EMBEDDED_WALLET_IFRAME_ID, link = href,
               container = document_body, iframeStyles = None,
               onIframeInitialize = None, communicator_clientId = clientId\<rparr>)"

text \<open>
  The constructor of \<^verbatim>\<open>EmbeddedWalletUiIframeCommunicator\<close>; the default of
  \<^verbatim>\<open>iframeStyles\<close>, \<^verbatim>\<open>getDefaultModalStyles().iframe\<close>, is the parameter
  \<open>default_iframe_styles\<close>.
\<close>

definition new_EmbeddedWalletUiIframeCommunicator ::
  "(string \<Rightarrow> string \<Rightarrow> url option) \<Rightarrow> string \<Rightarrow> StyleObject \<Rightarrow> string \<Rightarrow> string
     \<Rightarrow> container \<Rightarrow> js_object option \<Rightarrow> StyleObject option \<Rightarrow> nat option
     \<Rightarrow> js_error + IframeCommunicator_args" where
  "new_EmbeddedWalletUiIframeCommunicator new_URL PAPER_APP_URL default_iframe_styles
       clientId path container' customizationOptions iframeStyles' onIframeInitialize' =
     (let queryParams = customizationOptions
      in case createEmbeddedWalletIframeLink new_URL PAPER_APP_URL clientId path queryParams of
           Inl e \<Rightarrow> Inl e
         | Inr href \<Rightarrow>
             Inr \<lparr>iframeId = EMBEDDED_WALLET_MODAL_UI_IFRAME_ID, link = href,
                  container = container',
                  iframeStyles =
                    Some (case iframeStyles' of None \<Rightarrow> default_iframe_styles | Some st \<Rightarrow> st),
                  onIframeInitialize = onIframeInitialize'\<rparr>)"


section \<open>The channel\<close>

text \<open>
  Modelled from the spec: the lifecycle states of a channel, the three ways a call can
  fail, how a call settles, and the two kinds of outbound wire message (the base class
  \<^verbatim>\<open>IframeCommunicator\<close> that would declare them is not among the sources).
\<close>

datatype lifecycle = UNATTACHED | LOADING | READY | CLOSED

datatype call_error = RemoteProcedureError string | Timeout | ChannelClosed

datatype settlement = Resolved jsval | Rejected call_error

datatype wire_message = InitMessage js_object | CallMessage nat string jsval

text \<open>
  Modelled from the spec: how far the handshake has come. The initializer may be
  asynchronous and is awaited, so between its invocation and the sending of its payload
  other events can reach the channel. The spec does not say what follows when the awaited
  initializer fails; here nothing is sent then.
\<close>

datatype handshake_progress = NotStarted | AwaitingInitializer | InitSent | InitializerFailed

text \<open>
  Modelled from the spec: the base class \<^verbatim>\<open>IframeCommunicator\<close> (readiness handshake,
  \<^verbatim>\<open>call\<close>, \<^verbatim>\<open>close\<close>) is not among the sources. A channel has its lifecycle
  state, the counter correlation identifiers come from, the pending call table (the
  identifiers of the calls not yet settled), the messages queued until the init payload
  has been sent, the progress of the handshake, and three logs: the settlements handed to
  callers, the messages put on the wire, and how often the initializer and the
  \<^verbatim>\<open>onReady\<close> hook have run.
\<close>

record channel =
  lifecycle_state :: lifecycle
  next_correlationId :: nat
  pending :: "nat list"
  queued :: "wire_message list"
  handshake :: handshake_progress
  settled :: "(nat \<times> settlement) list"
  outbound :: "wire_message list"
  initializer_calls :: nat
  onReady_calls :: nat

text \<open>Modelled from the spec: a channel is created \<open>UNATTACHED\<close>, with nothing pending.\<close>

definition new_channel :: channel where
  "new_channel =
     \<lparr>lifecycle_state = UNATTACHED, next_correlationId = 0, pending = [], queued = [],
      handshake = NotStarted, settled = [], outbound = [], initializer_calls = 0,
      onReady_calls = 0\<rparr>"

text \<open>
  Modelled from the spec: the embedded surface begins loading
  (\<open>UNATTACHED\<close> to \<open>LOADING\<close>).
\<close>

definition attach :: "channel \<Rightarrow> channel" where
  "attach c = (if lifecycle_state c = UNATTACHED then c\<lparr>lifecycle_state := LOADING\<rparr> else c)"

text \<open>
  Modelled from the spec: the readiness handshake, steps (1) and (2). On the first receipt
  of the signal the channel becomes \<open>READY\<close> and invokes the initializer, whose result
  it then awaits; later receipts, and receipts after \<open>CLOSED\<close>, are ignored.
\<close>

definition on_readiness_signal :: "channel \<Rightarrow> channel" where
  "on_readiness_signal c =
     (if lifecycle_state c = UNATTACHED \<or> lifecycle_state c = LOADING
      then c\<lparr>lifecycle_state := READY,
             initializer_calls := Suc (initializer_calls c),
             handshake := AwaitingInitializer\<rparr>
      else c)"

text \<open>
  Modelled from the spec: the readiness handshake, steps (3) and (4). When the awaited
  initializer resolves, the channel sends the payload as the init message, flushes the
  queued calls in order and fires \<^verbatim>\<open>onReady\<close>. A channel closed in the meantime sends
  nothing.
\<close>

definition on_initializer_resolved :: "js_object \<Rightarrow> channel \<Rightarrow> channel" where
  "on_initializer_resolved payload c =
     (if lifecycle_state c = READY \<and> handshake c = AwaitingInitializer
      then c\<lparr>handshake := InitSent,
             outbound := outbound c @ [InitMessage payload] @ queued c,
             queued := [],
             onReady_calls := Suc (onReady_calls c)\<rparr>
      else c)"

text \<open>Modelled from the spec: the awaited initializer fails; nothing is sent.\<close>

definition on_initializer_rejected :: "channel \<Rightarrow> channel" where
  "on_initializer_rejected c =
     (if handshake c = AwaitingInitializer then c\<lparr>handshake := InitializerFailed\<rparr> else c)"

text \<open>
  Modelled from the spec: \<^verbatim>\<open>call(procedureName, params)\<close> takes a fresh correlation
  identifier, registers it as pending, and sends the message (queued while the channel is
  not yet \<open>READY\<close> or its init payload has not been sent, so that no call is on the wire
  before the init message). The spec leaves a call on a \<open>CLOSED\<close> channel open; here it
  is rejected at once with \<open>ChannelClosed\<close>.
\<close>

definition call :: "string \<Rightarrow> jsval \<Rightarrow> channel \<Rightarrow> channel" where
  "call procedureName params c =
     (let correlationId = next_correlationId c;
          message = CallMessage correlationId procedureName params
      in if lifecycle_state c = CLOSED
         then c\<lparr>next_correlationId := Suc correlationId,
                settled := settled c @ [(correlationId, Rejected ChannelClosed)]\<rparr>
         else if lifecycle_state c = READY \<and> handshake c = InitSent
         then c\<lparr>next_correlationId := Suc correlationId,
                pending := pending c @ [correlationId],
                outbound := outbound c @ [message]\<rparr>
         else c\<lparr>next_correlationId := Suc correlationId,
                pending := pending c @ [correlationId],
                queued := queued c @ [message]\<rparr>)"

text \<open>
  Modelled from the spec: an inbound Procedure Result settles the pending call of its
  correlation identifier (an \<open>errorMessage\<close> is \<open>Inl\<close>, a \<open>result\<close> is \<open>Inr\<close>); one
  with no pending entry is ignored.
\<close>

definition on_response :: "nat \<Rightarrow> string + jsval \<Rightarrow> channel \<Rightarrow> channel" where
  "on_response correlationId r c =
     (if lifecycle_state c \<noteq> CLOSED \<and> correlationId \<in> set (pending c)
      then c\<lparr>pending := removeAll correlationId (pending c),
             settled := settled c @
               [(correlationId,
                 case r of Inl errorMessage \<Rightarrow> Rejected (RemoteProcedureError errorMessage)
                         | Inr result \<Rightarrow> Resolved result)]\<rparr>
      else c)"

text \<open>Modelled from the spec: the timer of a pending call fires.\<close>

definition on_timeout :: "nat \<Rightarrow> channel \<Rightarrow> channel" where
  "on_timeout correlationId c =
     (if lifecycle_state c \<noteq> CLOSED \<and> correlationId \<in> set (pending c)
      then c\<lparr>pending := removeAll correlationId (pending c),
             settled := settled c @ [(correlationId, Rejected Timeout)]\<rparr>
      else c)"

text \<open>
  Modelled from the spec: \<^verbatim>\<open>close()\<close> rejects every pending call with
  \<open>ChannelClosed\<close> and moves to \<open>CLOSED\<close>; on a \<open>CLOSED\<close> channel it does nothing.
\<close>

definition close :: "channel \<Rightarrow> channel" where
  "close c =
     (if lifecycle_state c = CLOSED then c
      else c\<lparr>lifecycle_state := CLOSED,
             pending := [],
             settled := settled c @
               map (\<lambda>correlationId. (correlationId, Rejected ChannelClosed)) (pending c)\<rparr>)"

text \<open>
  Modelled from the spec: what can happen to a channel (the surface starts loading, a
  readiness signal arrives, the awaited initializer resolves or fails, a caller calls, a
  response arrives, a call's timer fires, the channel is closed), and the channel's
  reaction to each. The parameter \<open>initializer\<close> gives the payload the initializer
  resolves with.
\<close>

datatype event =
  Attach | ReadinessSignal | InitializerResolved | InitializerRejected
  | Call string jsval | Response nat "string + jsval" | TimerFired nat | Close

fun step :: "(unit \<Rightarrow> js_object) \<Rightarrow> event \<Rightarrow> channel \<Rightarrow> channel" where
  "step initializer Attach c = attach c"
| "step initializer ReadinessSignal c = on_readiness_signal c"
| "step initializer InitializerResolved c = on_initializer_resolved (initializer ()) c"
| "step initializer InitializerRejected c = on_initializer_rejected c"
| "step initializer (Call procedureName params) c = call procedureName params c"
| "step initializer (Response correlationId r) c = on_response correlationId r c"
| "step initializer (TimerFired correlationId) c = on_timeout correlationId c"
| "step initializer Close c = close c"

text \<open>
  Modelled from the spec: the life of a channel, a new channel taking the events in order.
\<close>

definition run_channel :: "(unit \<Rightarrow> js_object) \<Rightarrow> event list \<Rightarrow> channel" where
  "run_channel initializer evs = fold (step initializer) evs new_channel"




section \<open>The resolver on a store of objects\<close>

text \<open>
  Objects live in a store and are passed by reference: an address is an index into the
  store, and \<^verbatim>\<open>new\<close> appends a cell. In this form the resolver reads its mapping
  through the reference at every iteration and mutates the URL object it has created in
  place, as the source does.
\<close>

type_synonym addr = nat

datatype heap_cell = PlainObject js_object | UrlObject url

type_synonym store = "heap_cell list"

definition store_lookup :: "store \<Rightarrow> addr \<Rightarrow> heap_cell option" where
  "store_lookup s a = (if a < length s then Some (s ! a) else None)"

definition alloc :: "heap_cell \<Rightarrow> store \<Rightarrow> store \<times> addr" where
  "alloc obj s = (s @ [obj], length s)"

definition store_url_set :: "addr \<Rightarrow> string \<Rightarrow> string \<Rightarrow> store \<Rightarrow> store" where
  "store_url_set a name v s =
     (case store_lookup s a of
        Some (UrlObject u) \<Rightarrow> s[a := UrlObject (url_set name v u)]
      | _ \<Rightarrow> s)"

definition store_Object_keys :: "store \<Rightarrow> addr \<Rightarrow> string list" where
  "store_Object_keys s r =
     (case store_lookup s r of Some (PlainObject obj) \<Rightarrow> Object_keys obj | _ \<Rightarrow> [])"

definition store_get_property :: "store \<Rightarrow> addr \<Rightarrow> string \<Rightarrow> jsval" where
  "store_get_property s r k =
     (case store_lookup s r of Some (PlainObject obj) \<Rightarrow> get_property obj k | _ \<Rightarrow> JUndefined)"

definition createEmbeddedWalletIframeLink_store ::
  "(string \<Rightarrow> string \<Rightarrow> url option) \<Rightarrow> string \<Rightarrow> string \<Rightarrow> string \<Rightarrow> addr option
     \<Rightarrow> store \<Rightarrow> js_error + store \<times> addr" where
  "createEmbeddedWalletIframeLink_store new_URL PAPER_APP_URL clientId path queryParams s =
     (case new_URL path PAPER_APP_URL of
        None \<Rightarrow> Inl TypeError
      | Some url0 \<Rightarrow>
          (let (s1, embeddedWalletUrl) = alloc (UrlObject url0) s;
               s2 = store_url_set embeddedWalletUrl ''clientId'' clientId s1
           in case queryParams of
                None \<Rightarrow> Inr (s2, embeddedWalletUrl)
              | Some r \<Rightarrow>
                  Inr (fold (\<lambda>queryKey st.
                               store_url_set embeddedWalletUrl queryKey
                                 (or_else (optional_toString (store_get_property st r queryKey)) [])
                                 st)
                         (store_Object_keys s2 r) s2,
                       embeddedWalletUrl)))"

section \<open>The wallet\<close>

type_synonym Chain = string

datatype UserWalletStatus =
  LOGGED_OUT | LOGGED_IN_WALLET_UNINITIALIZED | LOGGED_IN_NEW_DEVICE
  | LOGGED_IN_WALLET_INITIALIZED

text \<open>
  The classes \<^verbatim>\<open>GaslessTransactionMaker\<close> and \<^verbatim>\<open>LocalStorage\<close> are not among the
  sources. Their constructors are taken as they are called: an instance is the record of
  the arguments it was constructed from.
\<close>

record GaslessTransactionMaker =
  gasless_chain :: Chain
  gasless_clientId :: string
  gasless_querier :: EmbeddedWalletIframeCommunicator

record LocalStorage =
  storage_clientId :: string

record EmbeddedWallet =
  clientId :: string
  chain :: Chain
  walletManagerQuerier :: EmbeddedWalletIframeCommunicator
  localStorage :: LocalStorage
  gasless :: GaslessTransactionMaker

definition new_EmbeddedWallet ::
  "string \<Rightarrow> Chain \<Rightarrow> EmbeddedWalletIframeCommunicator \<Rightarrow> EmbeddedWallet" where
  "new_EmbeddedWallet clientId' chain' querier =
     \<lparr>clientId = clientId', chain = chain', walletManagerQuerier = querier,
      localStorage = \<lparr>storage_clientId = clientId'\<rparr>,
      gasless = \<lparr>gasless_chain = chain', gasless_clientId = clientId',
                 gasless_querier = querier\<rparr>\<rparr>"

text \<open>
  What the wallet does to the world outside it: the remote calls issued, each with the
  communicator it went through, and the device shares saved, each with the storage it
  went to.
\<close>

record effects =
  remote_calls :: "(EmbeddedWalletIframeCommunicator \<times> string \<times> jsval) list"
  device_shares_saved :: "(LocalStorage \<times> string) list"

text \<open>
  Modelled from the spec: \<^verbatim>\<open>LocalStorage.saveDeviceShare\<close> belongs to a class that is
  not among the sources; the spec has such collaborators persist small key-value state
  outside the channel. The save is recorded, with the storage it went to, and does not
  throw.
\<close>

definition saveDeviceShare :: "LocalStorage \<Rightarrow> string \<Rightarrow> effects \<Rightarrow> effects" where
  "saveDeviceShare storage deviceShare fx =
     fx\<lparr>device_shares_saved := device_shares_saved fx @ [(storage, deviceShare)]\<rparr>"

text \<open>
  Modelled from the spec: the \<^verbatim>\<open>call\<close> method of the communicator (declared in the
  base class, which is not among the sources) as the wallet sees it. The call is issued
  and awaited; it resolves with a result or rejects with one of the three call errors, and
  the parameter \<open>remote\<close> says which.
\<close>

definition querier_call ::
  "(string \<Rightarrow> jsval \<Rightarrow> call_error + 'r) \<Rightarrow> EmbeddedWalletIframeCommunicator \<Rightarrow> string \<Rightarrow> jsval
     \<Rightarrow> effects \<Rightarrow> (call_error + 'r) \<times> effects" where
  "querier_call remote querier procedureName params fx =
     (remote procedureName params,
      fx\<lparr>remote_calls := remote_calls fx @ [(querier, procedureName, params)]\<rparr>)"

record WalletAddressObjectType =
  walletAddress :: string

record SetUpWalletRpcReturnType = WalletAddressObjectType +
  deviceShareStored :: string
  isIframeStorageEnabled :: bool

text \<open>
  \<^verbatim>\<open>postWalletSetUp\<close>: how the promise settles (\<open>Inr\<close> the value it resolves with),
  and the effects.
\<close>

definition postWalletSetUp ::
  "SetUpWalletRpcReturnType \<Rightarrow> EmbeddedWallet \<Rightarrow> effects
     \<Rightarrow> (js_error + WalletAddressObjectType) \<times> effects" where
  "postWalletSetUp args this fx =
     (let fx' = (if \<not> isIframeStorageEnabled args
                 then saveDeviceShare (localStorage this) (deviceShareStored args) fx
                 else fx)
      in (Inr \<lparr>walletAddress = walletAddress args\<rparr>, fx'))"

text \<open>
  A user object: its fields in order. A field holds data of no concern here (kept as
  text) or the wallet instance.
\<close>

datatype user_field = Data string | Wallet EmbeddedWallet

type_synonym user_object = "(string \<times> user_field) list"

record user_status =
  status :: UserWalletStatus
  user :: "user_object option"

text \<open>\<^verbatim>\<open>{ ...user, wallet: this }\<close>; spreading \<^verbatim>\<open>undefined\<close> contributes nothing.\<close>

definition spread_with_wallet :: "user_object option \<Rightarrow> EmbeddedWallet \<Rightarrow> user_object" where
  "spread_with_wallet u this =
     AList.update ''wallet'' (Wallet this) (case u of None \<Rightarrow> [] | Some entries \<Rightarrow> entries)"

text \<open>
  \<^verbatim>\<open>getUserWalletStatus\<close>: \<open>Inl\<close> when the awaited call rejects, the returned object
  otherwise.
\<close>

definition getUserWalletStatus ::
  "(string \<Rightarrow> jsval \<Rightarrow> call_error + user_status) \<Rightarrow> EmbeddedWallet \<Rightarrow> effects
     \<Rightarrow> (call_error + user_status) \<times> effects" where
  "getUserWalletStatus remote this fx =
     (let (outcome, fx') =
            querier_call remote (walletManagerQuerier this) ''getUserStatus'' JUndefined fx
      in case outcome of
           Inl e \<Rightarrow> (Inl e, fx')
         | Inr userStatus \<Rightarrow>
             if status userStatus = LOGGED_IN_WALLET_INITIALIZED
             then (Inr \<lparr>status = LOGGED_IN_WALLET_INITIALIZED,
                        user = Some (spread_with_wallet (user userStatus) this)\<rparr>, fx')
             else (Inr userStatus, fx'))"

text \<open>
  \<^verbatim>\<open>setChain({chain})\<close>: how the promise settles (it resolves with no value), the
  wallet after the call, and the effects.
\<close>

definition setChain ::
  "Chain \<Rightarrow> EmbeddedWallet \<Rightarrow> effects \<Rightarrow> (js_error + unit) \<times> EmbeddedWallet \<times> effects" where
  "setChain chain' this fx =
     (Inr (),
      this\<lparr>chain := chain',
           gasless := \<lparr>gasless_chain = chain', gasless_clientId = clientId this,
                       gasless_querier = walletManagerQuerier this\<rparr>\<rparr>,
      fx)"

text \<open>
  The \<^verbatim>\<open>searchParams.set\<close> calls the resolver makes, in order, and the value the
  last call for a name gave it.
\<close>

definition address_sets :: "string \<Rightarrow> js_object \<Rightarrow> (string \<times> string) list" where
  "address_sets cid qp =
     (''clientId'', cid) # map (\<lambda>queryKey. (queryKey, query_value qp queryKey)) (Object_keys qp)"

definition last_value_set :: "string \<Rightarrow> (string \<times> string) list \<Rightarrow> string option" where
  "last_value_set name sets = map_of (rev sets) name"

text \<open>
  What an invocation on a store produced: the error, or the content of the cell at the
  address it returned.
\<close>

definition produced_address :: "js_error + store \<times> addr \<Rightarrow> js_error + heap_cell option" where
  "produced_address outcome = map_sum id (\<lambda>(s', a). store_lookup s' a) outcome"

section \<open>Sample objects\<close>

text \<open>
  A communicator, its initializer over a storage that holds nothing, a wallet built on the
  communicator, and a world where nothing has happened yet.
\<close>

definition sample_querier :: EmbeddedWalletIframeCommunicator where
  "sample_querier =
     \<lparr>iframeId = EMBEDDED_WALLET_IFRAME_ID,
      link = \<lparr>origin_and_pathname = ''https://withpaper.com/sdk/embedded-wallet'',
               searchParams = [(''clientId'', ''cid123'')], fragment = []\<rparr>,
      container = document_body, iframeStyles = None, onIframeInitialize = None,
      communicator_clientId = ''cid123''\<rparr>"


definition sample_wallet :: EmbeddedWallet where
  "sample_wallet = new_EmbeddedWallet ''cid123'' ''Polygon'' sample_querier"

definition no_effects :: effects where
  "no_effects = \<lparr>remote_calls = [], device_shares_saved = []\<rparr>"

section \<open>Query parameters\<close>

lemma searchParams_get_set_same:
  "searchParams_get name (searchParams_set name v ps) = Some v"
  by (induction ps) (simp_all add: searchParams_get_def)

lemma map_of_filter_other:
  "k \<noteq> name \<Longrightarrow> map_of (filter (\<lambda>q. fst q \<noteq> name) ps) k = map_of ps k"
  by (induction ps) auto

lemma searchParams_get_set_other:
  "k \<noteq> name \<Longrightarrow> searchParams_get k (searchParams_set name v ps) = searchParams_get k ps"
  by (induction ps) (auto simp: searchParams_get_def map_of_filter_other)

lemma searchParams_fold_url_set:
  "searchParams (fold (\<lambda>key. url_set key (g key)) ks u) =
     fold (\<lambda>key. searchParams_set key (g key)) ks (searchParams u)"
  by (induction ks arbitrary: u) (simp_all add: url_set_def)

lemma searchParams_get_fold_set:
  "searchParams_get k (fold (\<lambda>key. searchParams_set key (g key)) ks ps) =
     (if k \<in> set ks then Some (g k) else searchParams_get k ps)"
proof (induction ks arbitrary: ps)
  case Nil
  show ?case by simp
next
  case (Cons key ks)
  show ?case
  proof (cases "k = key")
    case True
    with Cons.IH [of "searchParams_set key (g key) ps"] show ?thesis
      by (simp add: searchParams_get_set_same)
  next
    case False
    with Cons.IH [of "searchParams_set key (g key) ps"] show ?thesis
      by (simp add: searchParams_get_set_other)
  qed
qed

lemma createEmbeddedWalletIframeLink_params:
  assumes "new_URL path base = Some url0"
  shows "\<exists>u. createEmbeddedWalletIframeLink new_URL base cid path (Some qp) = Inr u \<and>
           (\<forall>k. searchParams_get k (searchParams u) =
              (if k \<in> set (Object_keys qp) then Some (query_value qp k)
               else if k = ''clientId'' then Some cid
               else searchParams_get k (searchParams url0)))"
  using assms
  by (auto simp: createEmbeddedWalletIframeLink_def searchParams_fold_url_set
      searchParams_get_fold_set url_set_def searchParams_get_set_same
      searchParams_get_set_other)

lemma last_value_set_address_sets:
  "last_value_set k (address_sets cid qp) =
     (if k \<in> set (Object_keys qp) then Some (query_value qp k)
      else if k = ''clientId'' then Some cid else None)"
proof -
  have "map_of (rev (map (\<lambda>queryKey. (queryKey, query_value qp queryKey)) (Object_keys qp))) k =
      (if k \<in> set (Object_keys qp) then Some (query_value qp k) else None)"
    by (simp add: rev_map map_of_map_restrict restrict_map_def)
  then show ?thesis
    by (simp add: last_value_set_def address_sets_def map_add_def)
qed

lemma map_of_Some_in_Object_keys:
  "map_of qp k = Some v \<Longrightarrow> k \<in> set (Object_keys qp)"
  by (auto simp: Object_keys_def dest: map_of_SomeD intro: rev_image_eqI)

text \<open>
  C3. Whenever the resolver produces an address (the platform parses the path), every key
  of the customization mapping whose value is \<^verbatim>\<open>undefined\<close> or \<^verbatim>\<open>null\<close> is a query
  parameter of that address with the empty string as its value: the key is not left out.
\<close>

theorem undefined_value_sets_empty_parameter:
  assumes "new_URL path base = Some url0"
    and "map_of qp k = Some v"
    and "v = JUndefined \<or> v = JNull"
  shows "\<exists>u. createEmbeddedWalletIframeLink new_URL base cid path (Some qp) = Inr u \<and>
           searchParams_get k (searchParams u) = Some []"
proof -
  from assms(2) have "k \<in> set (Object_keys qp)"
    by (rule map_of_Some_in_Object_keys)
  moreover from assms(2,3) have "query_value qp k = []"
    by (auto simp: query_value_def get_property_def)
  ultimately show ?thesis
    using createEmbeddedWalletIframeLink_params [of new_URL path base url0 cid qp] assms(1)
    by auto
qed

theorem undefined_value_sets_empty_parameter_witness:
  "plain_URL ''/embedded'' ''https://withpaper.com'' =
     Some \<lparr>origin_and_pathname = ''https://withpaper.com/embedded'', searchParams = [],
           fragment = []\<rparr> \<and>
   map_of [(''theme'', JUndefined), (''size'', JNumber 12)] ''theme'' = Some JUndefined \<and>
   (\<exists>u. createEmbeddedWalletIframeLink plain_URL ''https://withpaper.com'' ''cid123''
          ''/embedded'' (Some [(''theme'', JUndefined), (''size'', JNumber 12)]) = Inr u \<and>
        searchParams_get ''theme'' (searchParams u) = Some [])"
  using undefined_value_sets_empty_parameter
    [of plain_URL "''/embedded''" "''https://withpaper.com''"
        "\<lparr>origin_and_pathname = ''https://withpaper.com/embedded'', searchParams = [],
           fragment = []\<rparr>"
        "[(''theme'', JUndefined), (''size'', JNumber 12)]" "''theme''" JUndefined "''cid123''"]
  by (simp add: plain_URL_def)

text \<open>
  C4, as amended. Whenever the resolver produces an address, whatever the base location
  and however the platform joins it with the path, the address has one query parameter per
  customization key, holding that key's value as text, and it has the identity token under
  \<open>clientId\<close> provided \<open>clientId\<close> is not itself a customization key. With identity
  \<open>cid123\<close>, path \<open>/embedded\<close> and customization \<open>{theme: "dark"}\<close> that is
  \<open>clientId=cid123\<close> and \<open>theme=dark\<close>.
\<close>

theorem link_carries_clientId_and_customization:
  assumes "new_URL path base = Some url0"
  shows "(\<exists>u. createEmbeddedWalletIframeLink new_URL base cid path (Some qp) = Inr u \<and>
            (\<forall>k \<in> set (Object_keys qp).
               searchParams_get k (searchParams u) = Some (query_value qp k)) \<and>
            (''clientId'' \<notin> set (Object_keys qp) \<longrightarrow>
               searchParams_get ''clientId'' (searchParams u) = Some cid)) \<and>
         (\<exists>u. createEmbeddedWalletIframeLink new_URL base cid path None = Inr u \<and>
            searchParams_get ''clientId'' (searchParams u) = Some cid)"
proof
  from createEmbeddedWalletIframeLink_params [of new_URL path base url0 cid qp] assms
  show "\<exists>u. createEmbeddedWalletIframeLink new_URL base cid path (Some qp) = Inr u \<and>
            (\<forall>k \<in> set (Object_keys qp).
               searchParams_get k (searchParams u) = Some (query_value qp k)) \<and>
            (''clientId'' \<notin> set (Object_keys qp) \<longrightarrow>
               searchParams_get ''clientId'' (searchParams u) = Some cid)"
    by auto
next
  from assms
  show "\<exists>u. createEmbeddedWalletIframeLink new_URL base cid path None = Inr u \<and>
            searchParams_get ''clientId'' (searchParams u) = Some cid"
    by (simp add: createEmbeddedWalletIframeLink_def url_set_def searchParams_get_set_same)
qed

theorem link_carries_clientId_and_customization_witness:
  "(\<exists>u. createEmbeddedWalletIframeLink plain_URL ''https://withpaper.com'' ''cid123''
          ''/embedded'' (Some [(''theme'', JString ''dark'')]) = Inr u \<and>
        searchParams_get ''theme'' (searchParams u) = Some ''dark'' \<and>
        searchParams_get ''clientId'' (searchParams u) = Some ''cid123'') \<and>
   (\<exists>u. createEmbeddedWalletIframeLink plain_URL ''https://withpaper.com/'' ''cid123''
          ''/embedded'' (Some [(''theme'', JString ''dark'')]) = Inr u \<and>
        searchParams_get ''theme'' (searchParams u) = Some ''dark'' \<and>
        searchParams_get ''clientId'' (searchParams u) = Some ''cid123'')"
  using link_carries_clientId_and_customization
    [of plain_URL "''/embedded''" "''https://withpaper.com''"
        "\<lparr>origin_and_pathname = ''https://withpaper.com/embedded'', searchParams = [],
           fragment = []\<rparr>" "''cid123''" "[(''theme'', JString ''dark'')]"]
    link_carries_clientId_and_customization
    [of plain_URL "''/embedded''" "''https://withpaper.com/''"
        "\<lparr>origin_and_pathname = ''https://withpaper.com//embedded'', searchParams = [],
           fragment = []\<rparr>" "''cid123''" "[(''theme'', JString ''dark'')]"]
  by (simp add: plain_URL_def Object_keys_def query_value_def get_property_def)

text \<open>
  The claim as first stated fails where the customization mapping has the key
  \<open>clientId\<close>: the address then carries that entry's value, not the identity token.
\<close>

theorem link_clientId_overridden_counterexample:
  "createEmbeddedWalletIframeLink plain_URL ''https://withpaper.com'' ''cid123''
     ''/embedded'' (Some [(''clientId'', JString ''other'')]) =
   Inr \<lparr>origin_and_pathname = ''https://withpaper.com/embedded'',
        searchParams = [(''clientId'', ''other'')], fragment = []\<rparr> \<and>
   searchParams_get ''clientId'' [(''clientId'', ''other'')] \<noteq> Some ''cid123''"
  by (simp add: createEmbeddedWalletIframeLink_def plain_URL_def Object_keys_def
      query_value_def get_property_def url_set_def searchParams_get_def)

text \<open>
  C5. In the address the resolver produces, every query parameter holds the value the
  last \<^verbatim>\<open>set\<close> for its name gave it (and what the parsed path had for a name never
  set); in particular a customization entry under the key \<open>clientId\<close> replaces the
  identity token.
\<close>

theorem later_value_wins:
  assumes "new_URL path base = Some url0"
  shows "\<exists>u. createEmbeddedWalletIframeLink new_URL base cid path (Some qp) = Inr u \<and>
           (\<forall>k. searchParams_get k (searchParams u) =
              (case last_value_set k (address_sets cid qp) of
                 Some v \<Rightarrow> Some v
               | None \<Rightarrow> searchParams_get k (searchParams url0))) \<and>
           (\<forall>v. map_of qp ''clientId'' = Some v \<longrightarrow>
              searchParams_get ''clientId'' (searchParams u) =
                Some (or_else (optional_toString v) []))"
proof -
  from createEmbeddedWalletIframeLink_params [of new_URL path base url0 cid qp] assms
  obtain u where u: "createEmbeddedWalletIframeLink new_URL base cid path (Some qp) = Inr u"
    and get: "\<And>k. searchParams_get k (searchParams u) =
              (if k \<in> set (Object_keys qp) then Some (query_value qp k)
               else if k = ''clientId'' then Some cid
               else searchParams_get k (searchParams url0))"
    by blast
  have "searchParams_get ''clientId'' (searchParams u) = Some (or_else (optional_toString v) [])"
    if "map_of qp ''clientId'' = Some v" for v
  proof -
    from that have "''clientId'' \<in> set (Object_keys qp)"
      by (rule map_of_Some_in_Object_keys)
    with that show ?thesis
      by (simp add: get query_value_def get_property_def)
  qed
  with u get show ?thesis
    by (simp add: last_value_set_address_sets)
qed

theorem later_value_wins_witness:
  "\<exists>u. createEmbeddedWalletIframeLink plain_URL ''https://withpaper.com'' ''cid123''
          ''/embedded'' (Some [(''clientId'', JString ''other'')]) = Inr u \<and>
        searchParams_get ''clientId'' (searchParams u) = Some ''other''"
  using later_value_wins
    [of plain_URL "''/embedded''" "''https://withpaper.com''"
        "\<lparr>origin_and_pathname = ''https://withpaper.com/embedded'', searchParams = [],
           fragment = []\<rparr>" "''cid123''" "[(''clientId'', JString ''other'')]"]
  by (auto simp add: plain_URL_def)

section \<open>Context identities\<close>

lemma createEmbeddedWalletIframeLink_returns:
  "new_URL path base = Some url0 \<Longrightarrow>
     \<exists>u. createEmbeddedWalletIframeLink new_URL base cid path qp = Inr u"
  by (cases qp) (simp_all add: createEmbeddedWalletIframeLink_def Let_def)

lemma new_EmbeddedWalletIframeCommunicator_iframeId:
  "new_EmbeddedWalletIframeCommunicator new_URL base wallet_path cid opts = Inr a \<Longrightarrow>
     iframeId a = ''paper-embedded-wallet-iframe''"
  by (auto simp: new_EmbeddedWalletIframeCommunicator_def EMBEDDED_WALLET_IFRAME_ID_def
      split: sum.splits)

lemma new_EmbeddedWalletUiIframeCommunicator_iframeId:
  "new_EmbeddedWalletUiIframeCommunicator new_URL base styles cid path node opts styles' hook
       = Inr b \<Longrightarrow>
     iframeId b = ''paper-embedded-wallet-modal-iframe''"
  by (auto simp: new_EmbeddedWalletUiIframeCommunicator_def
      EMBEDDED_WALLET_MODAL_UI_IFRAME_ID_def split: sum.splits)

lemma new_EmbeddedWalletIframeCommunicator_returns:
  assumes "new_URL wallet_path base = Some url0"
  shows "\<exists>a. new_EmbeddedWalletIframeCommunicator new_URL base wallet_path cid opts = Inr a"
  using createEmbeddedWalletIframeLink_returns [of new_URL wallet_path base url0 cid opts] assms
  by (auto simp: new_EmbeddedWalletIframeCommunicator_def)

lemma new_EmbeddedWalletUiIframeCommunicator_returns:
  assumes "new_URL path base = Some url0"
  shows "\<exists>b. new_EmbeddedWalletUiIframeCommunicator new_URL base styles cid path node opts
           styles' hook = Inr b"
  using createEmbeddedWalletIframeLink_returns [of new_URL path base url0 cid opts] assms
  by (auto simp: new_EmbeddedWalletUiIframeCommunicator_def)

text \<open>
  C6, as amended. Every channel built by \<^verbatim>\<open>EmbeddedWalletIframeCommunicator\<close> has the
  identity \<open>paper-embedded-wallet-iframe\<close>, every channel built by
  \<^verbatim>\<open>EmbeddedWalletUiIframeCommunicator\<close> has the identity
  \<open>paper-embedded-wallet-modal-iframe\<close>, so two channels of different classes never share
  an identity; and each constructor does build a channel when the platform parses the path.
\<close>

theorem communicator_identities_fixed:
  "(\<forall>a. new_EmbeddedWalletIframeCommunicator new_URL base wallet_path cid opts = Inr a \<longrightarrow>
        iframeId a = ''paper-embedded-wallet-iframe'') \<and>
   (\<forall>b. new_EmbeddedWalletUiIframeCommunicator new_URL' base' styles cid' path' node opts'
          styles' hook = Inr b \<longrightarrow>
        iframeId b = ''paper-embedded-wallet-modal-iframe'') \<and>
   (\<forall>a b. new_EmbeddedWalletIframeCommunicator new_URL base wallet_path cid opts = Inr a \<and>
          new_EmbeddedWalletUiIframeCommunicator new_URL' base' styles cid' path' node opts'
            styles' hook = Inr b \<longrightarrow>
        iframeId a \<noteq> iframeId b) \<and>
   (\<forall>u0. new_URL wallet_path base = Some u0 \<longrightarrow>
        (\<exists>a. new_EmbeddedWalletIframeCommunicator new_URL base wallet_path cid opts = Inr a)) \<and>
   (\<forall>u0. new_URL' path' base' = Some u0 \<longrightarrow>
        (\<exists>b. new_EmbeddedWalletUiIframeCommunicator new_URL' base' styles cid' path' node opts'
               styles' hook = Inr b))"
proof (intro conjI allI impI)
  fix a
  assume "new_EmbeddedWalletIframeCommunicator new_URL base wallet_path cid opts = Inr a"
  then show "iframeId a = ''paper-embedded-wallet-iframe''"
    by (rule new_EmbeddedWalletIframeCommunicator_iframeId)
next
  fix b
  assume "new_EmbeddedWalletUiIframeCommunicator new_URL' base' styles cid' path' node opts'
      styles' hook = Inr b"
  then show "iframeId b = ''paper-embedded-wallet-modal-iframe''"
    by (rule new_EmbeddedWalletUiIframeCommunicator_iframeId)
next
  fix a b
  assume "new_EmbeddedWalletIframeCommunicator new_URL base wallet_path cid opts = Inr a \<and>
      new_EmbeddedWalletUiIframeCommunicator new_URL' base' styles cid' path' node opts'
        styles' hook = Inr b"
  then have "iframeId a = ''paper-embedded-wallet-iframe'' \<and>
      iframeId b = ''paper-embedded-wallet-modal-iframe''"
    by (auto dest: new_EmbeddedWalletIframeCommunicator_iframeId
        new_EmbeddedWalletUiIframeCommunicator_iframeId)
  then show "iframeId a \<noteq> iframeId b"
    by simp
next
  fix u0
  assume "new_URL wallet_path base = Some u0"
  then show "\<exists>a. new_EmbeddedWalletIframeCommunicator new_URL base wallet_path cid opts = Inr a"
    by (rule new_EmbeddedWalletIframeCommunicator_returns)
next
  fix u0
  assume "new_URL' path' base' = Some u0"
  then show "\<exists>b. new_EmbeddedWalletUiIframeCommunicator new_URL' base' styles cid' path' node
      opts' styles' hook = Inr b"
    by (rule new_EmbeddedWalletUiIframeCommunicator_returns)
qed

theorem communicator_identities_fixed_witness:
  "map_sum id iframeId
     (new_EmbeddedWalletIframeCommunicator plain_URL ''https://withpaper.com''
        ''/sdk/embedded-wallet'' ''cid123'' None) = Inr ''paper-embedded-wallet-iframe'' \<and>
   map_sum id iframeId
     (new_EmbeddedWalletUiIframeCommunicator plain_URL ''https://withpaper.com'' [] ''cid123''
        ''/sdk/modal'' document_body None None None) = Inr ''paper-embedded-wallet-modal-iframe''"
  using communicator_identities_fixed
    [of plain_URL "''https://withpaper.com''" "''/sdk/embedded-wallet''" "''cid123''" None
        plain_URL "''https://withpaper.com''" "[]" "''cid123''" "''/sdk/modal''" document_body
        None None None]
  by (simp add: new_EmbeddedWalletIframeCommunicator_def
      new_EmbeddedWalletUiIframeCommunicator_def createEmbeddedWalletIframeLink_def
      plain_URL_def)

text \<open>
  The claim as first stated fails for two channels of one class: built for two clients on
  one page, both have the same identity.
\<close>

theorem same_class_same_identity_counterexample:
  "map_sum id iframeId
     (new_EmbeddedWalletIframeCommunicator plain_URL ''https://withpaper.com''
        ''/sdk/embedded-wallet'' ''clientA'' None) = Inr ''paper-embedded-wallet-iframe'' \<and>
   map_sum id iframeId
     (new_EmbeddedWalletIframeCommunicator plain_URL ''https://withpaper.com''
        ''/sdk/embedded-wallet'' ''clientB'' None) = Inr ''paper-embedded-wallet-iframe''"
  by (simp add: new_EmbeddedWalletIframeCommunicator_def createEmbeddedWalletIframeLink_def
      plain_URL_def EMBEDDED_WALLET_IFRAME_ID_def)

section \<open>The wallet operations\<close>

text \<open>
  C8. \<^verbatim>\<open>getUserWalletStatus\<close> issues one remote call, \<open>getUserStatus\<close> with params
  \<^verbatim>\<open>undefined\<close>, through the wallet's communicator, and nothing else. When the response
  has status \<open>LOGGED_IN_WALLET_INITIALIZED\<close> it returns that status with the user's fields
  kept and the field \<open>wallet\<close> holding the wallet itself; for every other status it
  returns the response as it came; a rejected call rejects it.
\<close>

theorem getUserWalletStatus_one_call:
  "remote_calls (snd (getUserWalletStatus remote this fx)) =
     remote_calls fx @ [(walletManagerQuerier this, ''getUserStatus'', JUndefined)] \<and>
   device_shares_saved (snd (getUserWalletStatus remote this fx)) = device_shares_saved fx \<and>
   (\<forall>r. remote ''getUserStatus'' JUndefined = Inr r \<and> status r = LOGGED_IN_WALLET_INITIALIZED \<longrightarrow>
      fst (getUserWalletStatus remote this fx) =
        Inr \<lparr>status = LOGGED_IN_WALLET_INITIALIZED,
             user = Some (spread_with_wallet (user r) this)\<rparr> \<and>
      map_of (spread_with_wallet (user r) this) ''wallet'' = Some (Wallet this) \<and>
      (\<forall>k. k \<noteq> ''wallet'' \<longrightarrow>
         map_of (spread_with_wallet (user r) this) k =
           (case user r of None \<Rightarrow> None | Some entries \<Rightarrow> map_of entries k))) \<and>
   (\<forall>r. remote ''getUserStatus'' JUndefined = Inr r \<and> status r \<noteq> LOGGED_IN_WALLET_INITIALIZED \<longrightarrow>
      fst (getUserWalletStatus remote this fx) = Inr r) \<and>
   (\<forall>e. remote ''getUserStatus'' JUndefined = Inl e \<longrightarrow>
      fst (getUserWalletStatus remote this fx) = Inl e)"
  by (auto simp: getUserWalletStatus_def querier_call_def spread_with_wallet_def
      AList.update_conv' split: sum.splits option.splits)

theorem getUserWalletStatus_one_call_witness:
  "getUserWalletStatus
     (\<lambda>procedureName params.
        Inr \<lparr>status = LOGGED_IN_WALLET_INITIALIZED,
             user = Some [(''authDetails'', Data ''a@b.c''), (''walletAddress'', Data ''0xabc'')]\<rparr>)
     sample_wallet no_effects =
   (Inr \<lparr>status = LOGGED_IN_WALLET_INITIALIZED,
         user = Some [(''authDetails'', Data ''a@b.c''), (''walletAddress'', Data ''0xabc''),
                      (''wallet'', Wallet sample_wallet)]\<rparr>,
    \<lparr>remote_calls = [(sample_querier, ''getUserStatus'', JUndefined)],
     device_shares_saved = []\<rparr>)"
  using getUserWalletStatus_one_call
    [of "\<lambda>procedureName params.
        Inr \<lparr>status = LOGGED_IN_WALLET_INITIALIZED,
             user = Some [(''authDetails'', Data ''a@b.c''), (''walletAddress'', Data ''0xabc'')]\<rparr>"
        sample_wallet no_effects]
  by (simp add: getUserWalletStatus_def querier_call_def spread_with_wallet_def
      no_effects_def sample_wallet_def new_EmbeddedWallet_def)

text \<open>
  C9. \<^verbatim>\<open>postWalletSetUp\<close> resolves with an object holding the wallet address it was
  given, and it saves the device share, once, into the wallet's storage (the storage of the
  wallet's client) exactly when \<open>isIframeStorageEnabled\<close> is false; otherwise nothing is
  saved. It issues no remote call.
\<close>

theorem postWalletSetUp_saves_iff_iframe_storage_disabled:
  "fst (postWalletSetUp args this fx) = Inr \<lparr>walletAddress = walletAddress args\<rparr> \<and>
   device_shares_saved (snd (postWalletSetUp args this fx)) =
     (if isIframeStorageEnabled args then device_shares_saved fx
      else device_shares_saved fx @ [(localStorage this, deviceShareStored args)]) \<and>
   remote_calls (snd (postWalletSetUp args this fx)) = remote_calls fx \<and>
   localStorage (new_EmbeddedWallet cid ch q) = \<lparr>storage_clientId = cid\<rparr>"
  by (simp add: postWalletSetUp_def saveDeviceShare_def new_EmbeddedWallet_def)

theorem postWalletSetUp_saves_iff_iframe_storage_disabled_witness:
  "postWalletSetUp
     \<lparr>walletAddress = ''0xabc'', deviceShareStored = ''share'', isIframeStorageEnabled = False\<rparr>
     sample_wallet no_effects =
   (Inr \<lparr>walletAddress = ''0xabc''\<rparr>,
    \<lparr>remote_calls = [], device_shares_saved = [(\<lparr>storage_clientId = ''cid123''\<rparr>, ''share'')]\<rparr>) \<and>
   postWalletSetUp
     \<lparr>walletAddress = ''0xabc'', deviceShareStored = ''share'', isIframeStorageEnabled = True\<rparr>
     sample_wallet no_effects =
   (Inr \<lparr>walletAddress = ''0xabc''\<rparr>, no_effects)"
  using postWalletSetUp_saves_iff_iframe_storage_disabled
    [of "\<lparr>walletAddress = ''0xabc'', deviceShareStored = ''share'',
          isIframeStorageEnabled = False\<rparr>" sample_wallet no_effects]
  by (simp add: postWalletSetUp_def saveDeviceShare_def no_effects_def sample_wallet_def
      new_EmbeddedWallet_def)

text \<open>
  C10. \<^verbatim>\<open>setChain({chain})\<close> always resolves; afterwards the wallet's chain is the given
  chain and its \<open>gasless\<close> field is a \<^verbatim>\<open>GaslessTransactionMaker\<close> constructed from that
  chain, the wallet's client id and its communicator, while client id, communicator and
  local storage are what they were; no remote call is issued and nothing is saved.
\<close>

theorem setChain_frame:
  "fst (setChain ch this fx) = Inr () \<and>
   chain (fst (snd (setChain ch this fx))) = ch \<and>
   gasless (fst (snd (setChain ch this fx))) =
     \<lparr>gasless_chain = ch, gasless_clientId = clientId this,
      gasless_querier = walletManagerQuerier this\<rparr> \<and>
   clientId (fst (snd (setChain ch this fx))) = clientId this \<and>
   walletManagerQuerier (fst (snd (setChain ch this fx))) = walletManagerQuerier this \<and>
   localStorage (fst (snd (setChain ch this fx))) = localStorage this \<and>
   snd (snd (setChain ch this fx)) = fx"
  by (simp add: setChain_def)

theorem setChain_frame_witness:
  "setChain ''Mumbai'' sample_wallet no_effects =
     (Inr (), new_EmbeddedWallet ''cid123'' ''Mumbai'' sample_querier, no_effects)"
  using setChain_frame [of "''Mumbai''" sample_wallet no_effects]
  by (simp add: setChain_def sample_wallet_def new_EmbeddedWallet_def)

section \<open>The channel's handshake and teardown\<close>

lemmas channel_ops =
  attach_def on_readiness_signal_def on_initializer_resolved_def on_initializer_rejected_def
  call_def on_response_def on_timeout_def close_def

lemma step_closed_no_pending:
  assumes "lifecycle_state c = CLOSED \<longrightarrow> pending c = []"
  shows "lifecycle_state (step i e c) = CLOSED \<longrightarrow> pending (step i e c) = []"
  using assms by (cases e) (auto simp: channel_ops Let_def)

lemma fold_step_closed_no_pending:
  "lifecycle_state c = CLOSED \<longrightarrow> pending c = [] \<Longrightarrow>
     lifecycle_state (fold (step i) evs c) = CLOSED \<longrightarrow> pending (fold (step i) evs c) = []"
proof (induction evs arbitrary: c)
  case Nil
  then show ?case by simp
next
  case (Cons e evs)
  from Cons.prems have "lifecycle_state (step i e c) = CLOSED \<longrightarrow> pending (step i e c) = []"
    by (rule step_closed_no_pending)
  then show ?case
    using Cons.IH [of "step i e c"] by simp
qed









text \<open>
  C2. \<^verbatim>\<open>close()\<close> on a channel that is not yet \<open>CLOSED\<close> rejects every pending call
  with \<open>ChannelClosed\<close> (one settlement each, after those already made), empties the
  pending call table and moves the channel to \<open>CLOSED\<close>; on a \<open>CLOSED\<close> channel it
  changes nothing, so closing twice is closing once. A channel reached by any events is
  \<open>CLOSED\<close> with nothing pending once \<^verbatim>\<open>close()\<close> has run.
\<close>

theorem close_rejects_pending_and_is_idempotent:
  "(lifecycle_state c \<noteq> CLOSED \<longrightarrow>
      lifecycle_state (close c) = CLOSED \<and> pending (close c) = [] \<and>
      settled (close c) =
        settled c @ map (\<lambda>correlationId. (correlationId, Rejected ChannelClosed)) (pending c) \<and>
      (\<forall>correlationId \<in> set (pending c).
         (correlationId, Rejected ChannelClosed) \<in> set (settled (close c)))) \<and>
   (lifecycle_state c = CLOSED \<longrightarrow> close c = c) \<and>
   close (close c) = close c \<and>
   lifecycle_state (close (run_channel initializer evs)) = CLOSED \<and>
   pending (close (run_channel initializer evs)) = []"
proof -
  have "lifecycle_state (run_channel initializer evs) = CLOSED \<longrightarrow>
      pending (run_channel initializer evs) = []"
    unfolding run_channel_def
    by (rule fold_step_closed_no_pending) (simp add: new_channel_def)
  then have "pending (close (run_channel initializer evs)) = []"
    by (simp add: close_def)
  then show ?thesis
    by (auto simp: close_def)
qed

theorem close_rejects_pending_and_is_idempotent_witness:
  "lifecycle_state
     (run_channel (\<lambda>_. [])
        [Attach, Call ''getUserStatus'' JUndefined, ReadinessSignal, InitializerResolved,
         Call ''createWallet'' JUndefined, Response 1 (Inr (JString ''ok''))]) = READY \<and>
   pending
     (run_channel (\<lambda>_. [])
        [Attach, Call ''getUserStatus'' JUndefined, ReadinessSignal, InitializerResolved,
         Call ''createWallet'' JUndefined, Response 1 (Inr (JString ''ok''))]) = [0] \<and>
   settled
     (close (run_channel (\<lambda>_. [])
        [Attach, Call ''getUserStatus'' JUndefined, ReadinessSignal, InitializerResolved,
         Call ''createWallet'' JUndefined, Response 1 (Inr (JString ''ok''))])) =
     [(1, Resolved (JString ''ok'')), (0, Rejected ChannelClosed)]"
  using close_rejects_pending_and_is_idempotent
    [of "run_channel (\<lambda>_. [])
        [Attach, Call ''getUserStatus'' JUndefined, ReadinessSignal, InitializerResolved,
         Call ''createWallet'' JUndefined, Response 1 (Inr (JString ''ok''))]"]
  by (simp add: run_channel_def new_channel_def channel_ops)

section \<open>The resolver shares no state\<close>

lemma store_lookup_append_old:
  "store_lookup s r = Some obj \<Longrightarrow> store_lookup (s @ [x]) r = Some obj"
  by (auto simp: store_lookup_def nth_append split: if_splits)

lemma store_url_set_last:
  "store_url_set (length s) name v (s @ [UrlObject u]) = s @ [UrlObject (url_set name v u)]"
  by (simp add: store_url_set_def store_lookup_def)

lemma fold_store_url_set:
  assumes "store_lookup s r = Some (PlainObject qp)"
  shows "fold (\<lambda>queryKey st.
                 store_url_set (length s) queryKey
                   (or_else (optional_toString (store_get_property st r queryKey)) []) st)
           ks (s @ [UrlObject u]) =
         s @ [UrlObject (fold (\<lambda>queryKey. url_set queryKey (query_value qp queryKey)) ks u)]"
proof (induction ks arbitrary: u)
  case Nil
  show ?case by simp
next
  case (Cons k ks)
  from assms have "store_get_property (s @ [UrlObject u]) r k = get_property qp k"
    by (simp add: store_get_property_def store_lookup_append_old)
  then show ?case
    by (simp add: store_url_set_last Cons.IH query_value_def)
qed

lemma createEmbeddedWalletIframeLink_store_Some:
  assumes "store_lookup s r = Some (PlainObject qp)"
  shows "createEmbeddedWalletIframeLink_store new_URL base cid path (Some r) s =
         map_sum id (\<lambda>u. (s @ [UrlObject u], length s))
           (createEmbeddedWalletIframeLink new_URL base cid path (Some qp))"
proof (cases "new_URL path base")
  case None
  then show ?thesis
    by (simp add: createEmbeddedWalletIframeLink_store_def createEmbeddedWalletIframeLink_def)
next
  case (Some url0)
  from assms have "store_Object_keys (s @ [UrlObject (url_set ''clientId'' cid url0)]) r =
      Object_keys qp"
    by (simp add: store_Object_keys_def store_lookup_append_old)
  with Some show ?thesis
    by (simp add: createEmbeddedWalletIframeLink_store_def createEmbeddedWalletIframeLink_def
        alloc_def store_url_set_last fold_store_url_set [OF assms])
qed

lemma createEmbeddedWalletIframeLink_store_None:
  "createEmbeddedWalletIframeLink_store new_URL base cid path None s =
     map_sum id (\<lambda>u. (s @ [UrlObject u], length s))
       (createEmbeddedWalletIframeLink new_URL base cid path None)"
  by (cases "new_URL path base")
    (simp_all add: createEmbeddedWalletIframeLink_store_def createEmbeddedWalletIframeLink_def
      alloc_def store_url_set_last)

text \<open>
  C7. Run on any two stores that hold the same customization mapping (or with no mapping),
  with the same identity token and path, the resolver produces the same address or fails
  the same way. An invocation that returns has added one cell, the URL object it returns,
  and has left every cell that was there before as it was, the mapping it was given
  among them.
\<close>

theorem resolver_deterministic_without_shared_state:
  assumes "store_lookup s1 r1 = Some (PlainObject qp)"
    and "store_lookup s2 r2 = Some (PlainObject qp)"
  shows "produced_address (createEmbeddedWalletIframeLink_store new_URL base cid path (Some r1) s1) =
         produced_address (createEmbeddedWalletIframeLink_store new_URL base cid path (Some r2) s2) \<and>
         produced_address (createEmbeddedWalletIframeLink_store new_URL base cid path None s1) =
         produced_address (createEmbeddedWalletIframeLink_store new_URL base cid path None s2) \<and>
         (\<forall>q s' a. createEmbeddedWalletIframeLink_store new_URL base cid path q s1 = Inr (s', a) \<and>
              (q = None \<or> q = Some r1) \<longrightarrow>
            a = length s1 \<and> length s' = Suc (length s1) \<and> take (length s1) s' = s1 \<and>
            store_lookup s' r1 = Some (PlainObject qp) \<and>
            (\<exists>u. store_lookup s' a = Some (UrlObject u)))"
proof -
  have look: "store_lookup (s @ [UrlObject u]) (length s) = Some (UrlObject u)" for s u
    by (simp add: store_lookup_def)
  have det: "produced_address (map_sum id (\<lambda>u. (s @ [UrlObject u], length s)) res) =
      map_sum id (\<lambda>u. Some (UrlObject u)) res" for s res
    by (cases res) (simp_all add: produced_address_def look)
  have frame: "a = length s \<and> length s' = Suc (length s) \<and> take (length s) s' = s \<and>
      store_lookup s' r = Some obj \<and> (\<exists>u. store_lookup s' a = Some (UrlObject u))"
    if "map_sum id (\<lambda>u. (s @ [UrlObject u], length s)) res = Inr (s', a)"
      and "store_lookup s r = Some obj" for s s' :: store and res a r obj
    using that by (cases res) (auto simp: look store_lookup_append_old)
  have "produced_address (createEmbeddedWalletIframeLink_store new_URL base cid path (Some r1) s1) =
      produced_address (createEmbeddedWalletIframeLink_store new_URL base cid path (Some r2) s2)"
    by (simp add: createEmbeddedWalletIframeLink_store_Some [OF assms(1)]
        createEmbeddedWalletIframeLink_store_Some [OF assms(2)] det)
  moreover
  have "produced_address (createEmbeddedWalletIframeLink_store new_URL base cid path None s1) =
      produced_address (createEmbeddedWalletIframeLink_store new_URL base cid path None s2)"
    by (simp add: createEmbeddedWalletIframeLink_store_None det)
  moreover
  have "a = length s1 \<and> length s' = Suc (length s1) \<and> take (length s1) s' = s1 \<and>
      store_lookup s' r1 = Some (PlainObject qp) \<and>
      (\<exists>u. store_lookup s' a = Some (UrlObject u))"
    if "createEmbeddedWalletIframeLink_store new_URL base cid path q s1 = Inr (s', a) \<and>
      (q = None \<or> q = Some r1)" for q s' a
  proof -
    from that consider "q = None" | "q = Some r1"
      by blast
    then show ?thesis
    proof cases
      case 1
      with that have "map_sum id (\<lambda>u. (s1 @ [UrlObject u], length s1))
          (createEmbeddedWalletIframeLink new_URL base cid path None) = Inr (s', a)"
        by (simp add: createEmbeddedWalletIframeLink_store_None)
      then show ?thesis
        using assms(1) by (rule frame)
    next
      case 2
      with that have "map_sum id (\<lambda>u. (s1 @ [UrlObject u], length s1))
          (createEmbeddedWalletIframeLink new_URL base cid path (Some qp)) = Inr (s', a)"
        by (simp add: createEmbeddedWalletIframeLink_store_Some [OF assms(1)])
      then show ?thesis
        using assms(1) by (rule frame)
    qed
  qed
  ultimately show ?thesis
    by blast
qed

theorem resolver_deterministic_without_shared_state_witness:
  "createEmbeddedWalletIframeLink_store plain_URL ''https://withpaper.com'' ''cid123''
     ''/embedded'' (Some 0) [PlainObject [(''theme'', JString ''dark'')]] =
   Inr ([PlainObject [(''theme'', JString ''dark'')],
         UrlObject \<lparr>origin_and_pathname = ''https://withpaper.com/embedded'',
                    searchParams = [(''clientId'', ''cid123''), (''theme'', ''dark'')],
                    fragment = []\<rparr>], 1) \<and>
   createEmbeddedWalletIframeLink_store plain_URL ''https://withpaper.com'' ''cid123''
     ''/embedded'' (Some 1)
     [UrlObject \<lparr>origin_and_pathname = ''https://a.b/'', searchParams = [], fragment = []\<rparr>,
      PlainObject [(''theme'', JString ''dark'')]] =
   Inr ([UrlObject \<lparr>origin_and_pathname = ''https://a.b/'', searchParams = [], fragment = []\<rparr>,
         PlainObject [(''theme'', JString ''dark'')],
         UrlObject \<lparr>origin_and_pathname = ''https://withpaper.com/embedded'',
                    searchParams = [(''clientId'', ''cid123''), (''theme'', ''dark'')],
                    fragment = []\<rparr>], 2)"
  using resolver_deterministic_without_shared_state
    [of "[PlainObject [(''theme'', JString ''dark'')]]" 0 "[(''theme'', JString ''dark'')]"
        "[UrlObject \<lparr>origin_and_pathname = ''https://a.b/'', searchParams = [], fragment = []\<rparr>,
          PlainObject [(''theme'', JString ''dark'')]]" 1
        plain_URL "''https://withpaper.com''" "''cid123''" "''/embedded''"]
  by (simp add: createEmbeddedWalletIframeLink_store_def plain_URL_def alloc_def
      store_url_set_def store_lookup_def store_Object_keys_def store_get_property_def
      Object_keys_def get_property_def url_set_def)

end
